theory Spec2Isabelle
  imports Main
begin

section \<open>Python values, exceptions and the pygame readings\<close>

text \<open>
  A state identifier is what the source stores in \<open>state_name\<close>, \<open>next\<close> and
  \<open>previous\<close>: a Python string, or \<open>None\<close> (the value \<open>__init__\<close> gives them).
  Objects live in a store and are referred to by address, because \<open>Control.State\<close> and the
  values of \<open>Control.state_dict\<close> are references to the same mutable objects.
\<close>

type_synonym name = "string option"
type_synonym addr = nat

datatype pyval = PyNone | PyBool bool | PyInt int | PyStr string

text \<open>A Python dict with string keys, in insertion order.\<close>

type_synonym pdict = "(string \<times> pyval) list"

datatype error =
    KeyError name
  | TypeError
  | IndexError
  | ValueError
  | PygameError
  | OSError
  | Exception string

text \<open>
  A call either returns a value or raises; in both cases it leaves a state behind, so the
  mutations made before an exception stay visible.
\<close>

datatype ('r, 's) outcome = Returns 'r 's | Raises error 's

fun final :: "('r, 's) outcome \<Rightarrow> 's" where
  "final (Returns r s) = s"
| "final (Raises e s) = s"

fun raised :: "('r, 's) outcome \<Rightarrow> error option" where
  "raised (Returns r s) = None"
| "raised (Raises e s) = Some e"

datatype event_type = QUIT | KEYDOWN | KEYUP | MOUSEBUTTONDOWN | MOUSEBUTTONUP | USEREVENT nat

record event =
  etype :: event_type
  ecode :: int

type_synonym keys = "nat \<Rightarrow> bool"
type_synonym mouse = "bool \<times> bool \<times> bool"
type_synonym color = "nat \<times> nat \<times> nat"

text \<open>The key code \<open>pg.K_F5\<close> of pygame 1.x.\<close>

definition K_F5 :: nat where
  "K_F5 = 286"

text \<open>
  What the pygame module answers while one method call runs: \<open>get_ticks pg k\<close> is the
  answer of the \<open>k\<close>-th call of \<open>pg.time.get_ticks()\<close> made during that call.
\<close>

record pygame =
  get_ticks :: "nat \<Rightarrow> int"
  key_get_pressed :: keys
  mouse_get_pressed :: mouse
  mouse_get_pos :: "int \<times> int"

record rect =
  rect_x :: int
  rect_y :: int
  rect_w :: int
  rect_h :: int

type_synonym image = string

text \<open>A surface is known by the drawing operations applied to it, oldest first.\<close>

datatype draw = Fill color | Blit image rect

type_synonym surface = "draw list"

section \<open>The prototype class \<open>_State\<close>\<close>

text \<open>
  The fields set by \<open>_State.__init__\<close>; \<open>attrs\<close> holds the fields a subclass adds.
  The methods of \<open>_State\<close> are named \<open>StateBase_\<dots>\<close> below.
\<close>

record 'x state =
  start_time :: int
  "done" :: bool
  quit :: bool
  "next" :: name
  previous :: name
  persist :: pdict
  attrs :: 'x

text \<open>
  A class is its four method definitions. A method works on \<open>self\<close>; \<open>update\<close> also draws
  on the surface it is given. \<open>get_event\<close> is defined in the source with two different
  parameter lists: \<open>(self, event)\<close> in the screens and \<open>(self, event, keys, mouse)\<close> in
  \<open>_State\<close>.
\<close>

datatype 'x get_event_def =
    Def_event "event \<Rightarrow> pygame \<Rightarrow> 'x state \<Rightarrow> (unit, 'x state) outcome"
  | Def_event_keys_mouse
      "event \<Rightarrow> keys \<Rightarrow> mouse \<Rightarrow> pygame \<Rightarrow> 'x state \<Rightarrow> (unit, 'x state) outcome"

record 'x klass =
  get_event_def :: "'x get_event_def"
  startup_def :: "pdict \<Rightarrow> pygame \<Rightarrow> 'x state \<Rightarrow> (unit, 'x state) outcome"
  cleanup_def :: "pygame \<Rightarrow> 'x state \<Rightarrow> (pdict, 'x state) outcome"
  update_def ::
    "keys \<Rightarrow> mouse \<Rightarrow> pygame \<Rightarrow> surface \<times> 'x state \<Rightarrow> (unit, surface \<times> 'x state) outcome"

definition StateBase_init :: "pygame \<Rightarrow> 'x \<Rightarrow> 'x state" where
  "StateBase_init pg a =
     \<lparr>start_time = get_ticks pg 0, done = False, quit = False, next = None, previous = None,
      persist = [], attrs = a\<rparr>"

definition StateBase_get_event ::
    "event \<Rightarrow> keys \<Rightarrow> mouse \<Rightarrow> pygame \<Rightarrow> 'x state \<Rightarrow> (unit, 'x state) outcome" where
  "StateBase_get_event event ks ms pg self = Returns () self"

definition StateBase_startup :: "pdict \<Rightarrow> pygame \<Rightarrow> 'x state \<Rightarrow> (unit, 'x state) outcome" where
  "StateBase_startup persistant pg self =
     Returns () (self\<lparr>persist := persistant, start_time := get_ticks pg 0\<rparr>)"

definition StateBase_cleanup :: "pygame \<Rightarrow> 'x state \<Rightarrow> (pdict, 'x state) outcome" where
  "StateBase_cleanup pg self =
     (let self1 = self\<lparr>done := False\<rparr> in Returns (persist self1) self1)"

definition StateBase_update ::
    "keys \<Rightarrow> mouse \<Rightarrow> pygame \<Rightarrow> surface \<times> 'x state
      \<Rightarrow> (unit, surface \<times> 'x state) outcome" where
  "StateBase_update ks ms pg ss = Returns () ss"

definition StateBase_class :: "'x klass" where
  "StateBase_class =
     \<lparr>get_event_def = Def_event_keys_mouse StateBase_get_event,
      startup_def = StateBase_startup,
      cleanup_def = StateBase_cleanup,
      update_def = StateBase_update\<rparr>"

section \<open>The class \<open>Control\<close>\<close>

text \<open>
  One entry of the call history: which method of which object was entered, and with which
  persist mapping for \<open>startup\<close>.
\<close>

datatype call =
    Call_get_event addr event
  | Call_update addr
  | Call_startup addr pdict
  | Call_cleanup addr

text \<open>
  The fields of \<open>Control\<close> (its \<open>done\<close> is \<open>control_done\<close> here, since the states have a
  \<open>done\<close> of their own), followed by what the controller works on: the store of state
  objects, the caption of the pygame window, and the history of the calls made on states.
  \<open>Clock\<close> keeps no state that the program reads back except the frame rate, which the
  input of a frame supplies.
\<close>

record 'x control =
  screen :: surface
  caption :: string
  control_done :: bool
  fps :: nat
  show_fps :: bool
  keys :: keys
  mouse :: mouse
  state_dict :: "name \<rightharpoonup> addr"
  state_name :: name
  State :: addr
  objects :: "addr \<Rightarrow> 'x state"
  display_caption :: string
  calls :: "call list"

text \<open>The class of the object at an address; an object never changes its class.\<close>

type_synonym 'x classes = "addr \<Rightarrow> 'x klass"

text \<open>Running a method on the object at address \<open>a\<close> writes the object back.\<close>

definition on_object ::
    "addr \<Rightarrow> ('x state \<Rightarrow> ('r, 'x state) outcome) \<Rightarrow> 'x control \<Rightarrow> ('r, 'x control) outcome" where
  "on_object a m c =
     (case m (objects c a) of
        Returns r s \<Rightarrow> Returns r (c\<lparr>objects := (objects c)(a := s)\<rparr>)
      | Raises e s \<Rightarrow> Raises e (c\<lparr>objects := (objects c)(a := s)\<rparr>))"

text \<open>\<open>self.State.get_event(event)\<close>: one argument is passed.\<close>

definition call_get_event ::
    "'x classes \<Rightarrow> event \<Rightarrow> pygame \<Rightarrow> 'x control \<Rightarrow> (unit, 'x control) outcome" where
  "call_get_event cls event pg c =
     (case get_event_def (cls (State c)) of
        Def_event body \<Rightarrow>
          on_object (State c) (body event pg)
            (c\<lparr>calls := calls c @ [Call_get_event (State c) event]\<rparr>)
      | Def_event_keys_mouse body \<Rightarrow> Raises TypeError c)"

text \<open>\<open>self.State.cleanup()\<close>\<close>

definition call_cleanup :: "'x classes \<Rightarrow> pygame \<Rightarrow> 'x control \<Rightarrow> (pdict, 'x control) outcome" where
  "call_cleanup cls pg c =
     on_object (State c) (cleanup_def (cls (State c)) pg)
       (c\<lparr>calls := calls c @ [Call_cleanup (State c)]\<rparr>)"

text \<open>\<open>self.State.startup(persist)\<close>\<close>

definition call_startup ::
    "'x classes \<Rightarrow> pdict \<Rightarrow> pygame \<Rightarrow> 'x control \<Rightarrow> (unit, 'x control) outcome" where
  "call_startup cls p pg c =
     on_object (State c) (startup_def (cls (State c)) p pg)
       (c\<lparr>calls := calls c @ [Call_startup (State c) p]\<rparr>)"

text \<open>\<open>self.State.update(self.screen,self.keys,self.mouse)\<close>\<close>

definition call_update :: "'x classes \<Rightarrow> pygame \<Rightarrow> 'x control \<Rightarrow> (unit, 'x control) outcome" where
  "call_update cls pg c =
     (let c1 = c\<lparr>calls := calls c @ [Call_update (State c)]\<rparr> in
      case update_def (cls (State c)) (keys c) (mouse c) pg (screen c, objects c (State c)) of
        Returns r (surf, s) \<Rightarrow>
          Returns () (c1\<lparr>screen := surf, objects := (objects c)(State c := s)\<rparr>)
      | Raises e (surf, s) \<Rightarrow>
          Raises e (c1\<lparr>screen := surf, objects := (objects c)(State c := s)\<rparr>))"

definition setup_states ::
    "(name \<rightharpoonup> addr) \<Rightarrow> name \<Rightarrow> 'x control \<Rightarrow> (unit, 'x control) outcome" where
  "setup_states sd start_state c =
     (let c1 = c\<lparr>state_dict := sd, state_name := start_state\<rparr> in
      case state_dict c1 (state_name c1) of
        None \<Rightarrow> Raises (KeyError (state_name c1)) c1
      | Some a \<Rightarrow> Returns () (c1\<lparr>State := a\<rparr>))"

text \<open>
  \<open>flip_state\<close>, statement by statement; \<open>pgc\<close> and \<open>pgs\<close> are the pygame readings during
  \<open>cleanup\<close> and during \<open>startup\<close>.
\<close>

definition flip_state ::
    "'x classes \<Rightarrow> pygame \<Rightarrow> pygame \<Rightarrow> 'x control \<Rightarrow> (unit, 'x control) outcome" where
  "flip_state cls pgc pgs c =
     (let previous_name = state_name c;
          c1 = c\<lparr>state_name := next (objects c (State c))\<rparr> in
      case call_cleanup cls pgc c1 of
        Raises e c2 \<Rightarrow> Raises e c2
      | Returns persist_map c2 \<Rightarrow>
          (case state_dict c2 (state_name c2) of
             None \<Rightarrow> Raises (KeyError (state_name c2)) c2
           | Some a \<Rightarrow>
               (case call_startup cls persist_map pgs (c2\<lparr>State := a\<rparr>) of
                  Raises e c4 \<Rightarrow> Raises e c4
                | Returns u c4 \<Rightarrow>
                    Returns ()
                      (c4\<lparr>objects := (objects c4)
                         (State c4 := (objects c4 (State c4))\<lparr>previous := previous_name\<rparr>)\<rparr>))))"

definition toggle_show_fps :: "'x control \<Rightarrow> 'x control" where
  "toggle_show_fps c =
     (let c1 = (if keys c K_F5 then c\<lparr>show_fps := \<not> show_fps c\<rparr> else c) in
      if \<not> show_fps c1 then c1\<lparr>display_caption := caption c1\<rparr> else c1)"

text \<open>
  \<open>event_loop\<close> over the events that \<open>pg.event.get()\<close> returned, each with the pygame
  readings at the time it is handled.
\<close>

fun event_loop ::
    "'x classes \<Rightarrow> (event \<times> pygame) list \<Rightarrow> 'x control \<Rightarrow> (unit, 'x control) outcome" where
  "event_loop cls [] c = Returns () c"
| "event_loop cls ((event, pg) # rest) c =
     (let c1 =
        (if etype event = QUIT then c\<lparr>control_done := True\<rparr>
         else if etype event \<in> {KEYDOWN, KEYUP}
           then toggle_show_fps (c\<lparr>keys := key_get_pressed pg\<rparr>)
         else if etype event \<in> {MOUSEBUTTONDOWN, MOUSEBUTTONUP}
           then c\<lparr>mouse := mouse_get_pressed pg\<rparr>
         else c) in
      case call_get_event cls event pg c1 of
        Raises e c2 \<Rightarrow> Raises e c2
      | Returns u c2 \<Rightarrow> event_loop cls rest c2)"

text \<open>
  What one pass of the main loop receives from outside: the pending events, the pygame
  readings during \<open>cleanup\<close>, \<open>startup\<close> and \<open>State.update\<close>, and the frame rate as
  \<open>{:.2f}\<close> prints it.
\<close>

record frame =
  events :: "(event \<times> pygame) list"
  cleanup_pg :: pygame
  startup_pg :: pygame
  update_pg :: pygame
  fps_text :: string

definition update :: "'x classes \<Rightarrow> frame \<Rightarrow> 'x control \<Rightarrow> (unit, 'x control) outcome" where
  "update cls f c =
     (case (if quit (objects c (State c)) then Returns () (c\<lparr>control_done := True\<rparr>)
            else if done (objects c (State c)) then flip_state cls (cleanup_pg f) (startup_pg f) c
            else Returns () c) of
        Raises e c1 \<Rightarrow> Raises e c1
      | Returns u c1 \<Rightarrow> call_update cls (update_pg f) c1)"

text \<open>The body of the loop in \<open>main\<close>.\<close>

definition iteration :: "'x classes \<Rightarrow> frame \<Rightarrow> 'x control \<Rightarrow> (unit, 'x control) outcome" where
  "iteration cls f c =
     (case event_loop cls (events f) c of
        Raises e c1 \<Rightarrow> Raises e c1
      | Returns u c1 \<Rightarrow>
          (case update cls f c1 of
             Raises e c2 \<Rightarrow> Raises e c2
           | Returns u c2 \<Rightarrow>
               Returns ()
                 (if show_fps c2
                  then c2\<lparr>display_caption := caption c2 @ '' - '' @ fps_text f @ '' FPS''\<rparr>
                  else c2)))"

text \<open>
  \<open>main\<close> on a script of frames. The result is \<open>None\<close> when the script ends while the loop
  is still running; \<open>Some\<close> when the loop has been left, by its condition or by an exception.
\<close>

fun main :: "'x classes \<Rightarrow> frame list \<Rightarrow> 'x control \<Rightarrow> (unit, 'x control) outcome option" where
  "main cls [] c = (if control_done c then Some (Returns () c) else None)"
| "main cls (f # fs) c =
     (if control_done c then Some (Returns () c)
      else case iteration cls f c of
             Raises e c1 \<Rightarrow> Some (Raises e c1)
           | Returns u c1 \<Rightarrow> main cls fs c1)"


section \<open>The screens \<open>Story\<close> and \<open>Survive\<close>\<close>

text \<open>
  \<open>Rect.collidepoint\<close> and \<open>Mask.get_at\<close> of pygame: a point on the right or bottom edge
  is outside the rectangle, and reading a mask outside its size raises \<open>IndexError\<close>.
\<close>

definition collidepoint :: "rect \<Rightarrow> int \<times> int \<Rightarrow> bool" where
  "collidepoint r pos =
     (rect_x r \<le> fst pos \<and> fst pos < rect_x r + rect_w r
      \<and> rect_y r \<le> snd pos \<and> snd pos < rect_y r + rect_h r)"

record mask =
  mask_w :: int
  mask_h :: int
  mask_set :: "(int \<times> int) list"

definition get_at :: "mask \<Rightarrow> int \<times> int \<Rightarrow> error + bool" where
  "get_at m pos =
     (if 0 \<le> fst pos \<and> fst pos < mask_w m \<and> 0 \<le> snd pos \<and> snd pos < mask_h m
      then Inr (pos \<in> set (mask_set m))
      else Inl IndexError)"

text \<open>
  The class \<open>Sun\<close> of \<open>components/sun.py\<close> is not among the sources. A sun is known here by
  the three attributes that \<open>Story\<close> reads; \<open>sun_attrs\<close> stands for whatever else it holds,
  and its method \<open>update\<close> is a parameter \<open>Sun_update\<close> of the functions below.
\<close>

record 'z sun =
  image :: image
  image_rect :: rect
  mask :: mask
  sun_attrs :: 'z

text \<open>
  The fields that \<open>Story.__init__\<close> adds to those of \<open>_State\<close>. \<open>Survive.__init__\<close> adds
  the same ones except \<open>level_sun_fall\<close> and \<open>suns\<close>, which no method of \<open>Survive\<close> reads.
  \<open>timer\<close> starts as \<open>0.0\<close> and then holds readings of \<open>get_ticks\<close>, which are integers.
\<close>

record 'z screen_attrs =
  level_sun_fall :: nat
  suns :: "'z sun list"
  title :: image
  title_rect :: rect
  ne_key :: image
  ne_key_rect :: rect
  blink :: bool
  timer :: int

text \<open>
  The \<open>if\<close> statement that opens the body of the loop in \<open>sun_updates\<close>. It returns
  \<open>True\<close> when it has removed \<open>obj\<close> and leaves the loop by \<open>break\<close>;
  \<open>list.remove\<close> raises \<open>ValueError\<close> when the list does not hold \<open>obj\<close>.
\<close>

definition Story_sun_click ::
    "pygame \<Rightarrow> 'z sun \<Rightarrow> 'z screen_attrs state \<Rightarrow> (bool, 'z screen_attrs state) outcome" where
  "Story_sun_click pg obj self =
     (if collidepoint (image_rect obj) (mouse_get_pos pg) \<and> fst (mouse_get_pressed pg) then
        (let mouse_pos = mouse_get_pos pg;
             offset = (fst mouse_pos - rect_x (image_rect obj),
                       snd mouse_pos - rect_y (image_rect obj)) in
         case get_at (mask obj) offset of
           Inl e \<Rightarrow> Raises e self
         | Inr is_set \<Rightarrow>
             if \<not> is_set then
               (if fst (mouse_get_pressed pg)
                then (if obj \<in> set (suns (attrs self))
                      then Returns True
                             (self\<lparr>attrs :=
                                (attrs self)\<lparr>suns := remove1 obj (suns (attrs self))\<rparr>\<rparr>)
                      else Raises ValueError self)
                else Returns False self)
             else Returns False self)
      else Returns False self)"

text \<open>
  The loop of \<open>sun_updates\<close> over the copy \<open>self.suns[:]\<close>. The statement \<open>obj.update\<close>
  evaluates to the bound method and drops it: nothing calls it.
\<close>

fun Story_sun_loop ::
    "('z sun \<Rightarrow> unit \<Rightarrow> 'z sun) \<Rightarrow> pygame \<Rightarrow> 'z sun list \<Rightarrow> surface \<times> 'z screen_attrs state
      \<Rightarrow> (unit, surface \<times> 'z screen_attrs state) outcome" where
  "Story_sun_loop Sun_update pg [] (surface, self) = Returns () (surface, self)"
| "Story_sun_loop Sun_update pg (obj # rest) (surface, self) =
     (case Story_sun_click pg obj self of
        Raises e self1 \<Rightarrow> Raises e (surface, self1)
      | Returns broke self1 \<Rightarrow>
          if broke then Returns () (surface, self1)
          else (let bound_method = Sun_update obj in
                Story_sun_loop Sun_update pg rest
                  (surface @ [Blit (image obj) (image_rect obj)], self1)))"

definition Story_sun_updates ::
    "('z sun \<Rightarrow> unit \<Rightarrow> 'z sun) \<Rightarrow> pygame \<Rightarrow> surface \<times> 'z screen_attrs state
      \<Rightarrow> (unit, surface \<times> 'z screen_attrs state) outcome" where
  "Story_sun_updates Sun_update pg ss =
     Story_sun_loop Sun_update pg (suns (attrs (snd ss))) ss"

text \<open>The blinking of \<open>[Press Any Key]\<close>, shared by the two \<open>update\<close> methods.\<close>

definition blink_step :: "pygame \<Rightarrow> 'z screen_attrs state \<Rightarrow> 'z screen_attrs state" where
  "blink_step pg self =
     (if get_ticks pg 0 - timer (attrs self) > 200
      then self\<lparr>attrs := (attrs self)\<lparr>blink := \<not> blink (attrs self), timer := get_ticks pg 1\<rparr>\<rparr>
      else self)"

definition Story_update ::
    "('z sun \<Rightarrow> unit \<Rightarrow> 'z sun) \<Rightarrow> keys \<Rightarrow> mouse \<Rightarrow> pygame \<Rightarrow> surface \<times> 'z screen_attrs state
      \<Rightarrow> (unit, surface \<times> 'z screen_attrs state) outcome" where
  "Story_update Sun_update ks ms pg ss =
     (case Story_sun_updates Sun_update pg (fst ss @ [Fill (0, 0, 0)], snd ss) of
        Raises e ss1 \<Rightarrow> Raises e ss1
      | Returns u (surface1, self1) \<Rightarrow>
          (let self2 = blink_step pg self1;
               surface2 = (if blink (attrs self2)
                           then surface1 @ [Blit (ne_key (attrs self2)) (ne_key_rect (attrs self2))]
                           else surface1) in
           Returns () (surface2 @ [Blit (title (attrs self2)) (title_rect (attrs self2))], self2)))"

definition Story_get_event ::
    "event \<Rightarrow> pygame \<Rightarrow> 'x state \<Rightarrow> (unit, 'x state) outcome" where
  "Story_get_event event pg self =
     (if etype event = KEYDOWN
      then Returns () (self\<lparr>next := Some ''MENU'', done := True\<rparr>)
      else Returns () self)"

definition Story_class :: "('z sun \<Rightarrow> unit \<Rightarrow> 'z sun) \<Rightarrow> 'z screen_attrs klass" where
  "Story_class Sun_update =
     \<lparr>get_event_def = Def_event Story_get_event,
      startup_def = StateBase_startup,
      cleanup_def = StateBase_cleanup,
      update_def = Story_update Sun_update\<rparr>"

definition Survive_update ::
    "keys \<Rightarrow> mouse \<Rightarrow> pygame \<Rightarrow> surface \<times> 'z screen_attrs state
      \<Rightarrow> (unit, surface \<times> 'z screen_attrs state) outcome" where
  "Survive_update ks ms pg ss =
     (let surface1 = fst ss @ [Fill (0, 0, 0)]
                       @ [Blit (title (attrs (snd ss))) (title_rect (attrs (snd ss)))];
          self1 = blink_step pg (snd ss) in
      Returns ()
        (if blink (attrs self1)
         then surface1 @ [Blit (ne_key (attrs self1)) (ne_key_rect (attrs self1))]
         else surface1, self1))"

definition Survive_get_event ::
    "event \<Rightarrow> pygame \<Rightarrow> 'x state \<Rightarrow> (unit, 'x state) outcome" where
  "Survive_get_event event pg self =
     (if etype event = KEYDOWN
      then Returns () (self\<lparr>next := Some ''MENU'', done := True\<rparr>)
      else Returns () self)"

definition Survive_class :: "'z screen_attrs klass" where
  "Survive_class =
     \<lparr>get_event_def = Def_event Survive_get_event,
      startup_def = StateBase_startup,
      cleanup_def = StateBase_cleanup,
      update_def = Survive_update\<rparr>"

section \<open>Resource loading\<close>














section \<open>Vocabulary of the properties\<close>

text \<open>The objects whose \<open>update\<close> was called, in the order of the calls.\<close>

definition updated :: "call list \<Rightarrow> addr list" where
  "updated cs = concat (map (\<lambda>k. case k of Call_update a \<Rightarrow> [a] | _ \<Rightarrow> []) cs)"

text \<open>The call history, and the screen, at the end of a run of \<open>main\<close>.\<close>

definition history :: "(unit, 'x control) outcome option \<Rightarrow> call list" where
  "history r = (case r of None \<Rightarrow> [] | Some r1 \<Rightarrow> calls (final r1))"

definition shown :: "(unit, 'x control) outcome option \<Rightarrow> surface" where
  "shown r = (case r of None \<Rightarrow> [] | Some r1 \<Rightarrow> screen (final r1))"

text \<open>
  \<open>away cls S fs c\<close> runs the frames \<open>fs\<close> from \<open>c\<close>, one pass of the main loop each,
  and gives the controller reached, provided that every pass returns and that the object
  \<open>S\<close> is not the current state before or after any of them.
\<close>

fun away :: "'x classes \<Rightarrow> addr \<Rightarrow> frame list \<Rightarrow> 'x control \<Rightarrow> 'x control option" where
  "away cls S [] c = (if State c = S then None else Some c)"
| "away cls S (f # fs) c =
     (if State c = S then None
      else case iteration cls f c of
             Raises e c1 \<Rightarrow> None
           | Returns u c1 \<Rightarrow> away cls S fs c1)"

section \<open>An example program\<close>

text \<open>
  The menu screen that \<open>Story\<close> and \<open>Survive\<close> hand over to is not among the sources.
  The examples use this stand-in: a key press asks for the story screen, a mouse click for
  the end of the program, and it draws as the survive screen does.
\<close>

definition Menu_get_event ::
    "event \<Rightarrow> pygame \<Rightarrow> 'x state \<Rightarrow> (unit, 'x state) outcome" where
  "Menu_get_event event pg self =
     (if etype event = KEYDOWN
      then Returns () (self\<lparr>next := Some ''STORY'', done := True\<rparr>)
      else if etype event = MOUSEBUTTONDOWN then Returns () (self\<lparr>quit := True\<rparr>)
      else Returns () self)"

definition Menu_class :: "'z screen_attrs klass" where
  "Menu_class =
     \<lparr>get_event_def = Def_event Menu_get_event,
      startup_def = StateBase_startup,
      cleanup_def = StateBase_cleanup,
      update_def = Survive_update\<rparr>"

text \<open>
  A controller after \<open>setup_states\<close>, with a story screen at address 0, the menu at 1, a
  survive screen at 2, and direct instances of \<open>_State\<close> everywhere else.
\<close>

definition example_pygame :: pygame where
  "example_pygame =
     \<lparr>get_ticks = (\<lambda>k. 1000), key_get_pressed = (\<lambda>k. False),
      mouse_get_pressed = (False, False, False), mouse_get_pos = (0, 0)\<rparr>"

definition example_attrs :: "unit screen_attrs" where
  "example_attrs =
     \<lparr>level_sun_fall = 10, suns = [],
      title = ''Story'', title_rect = \<lparr>rect_x = 380, rect_y = 190, rect_w = 40, rect_h = 20\<rparr>,
      ne_key = ''[Press Any Key]'',
      ne_key_rect = \<lparr>rect_x = 340, rect_y = 490, rect_w = 120, rect_h = 20\<rparr>,
      blink = False, timer = 0\<rparr>"

definition example_state :: "unit screen_attrs state" where
  "example_state = StateBase_init example_pygame example_attrs"

definition example_classes :: "unit screen_attrs classes" where
  "example_classes =
     (\<lambda>a. StateBase_class)(0 := Story_class (\<lambda>obj u. obj), 1 := Menu_class, 2 := Survive_class)"

definition example_control :: "unit screen_attrs control" where
  "example_control =
     \<lparr>screen = [], caption = ''Plants VS Zombies'', control_done = False, fps = 60,
      show_fps = True, keys = (\<lambda>k. False), mouse = (False, False, False),
      state_dict = [Some ''STORY'' \<mapsto> 0, Some ''MENU'' \<mapsto> 1, Some ''SURVIVE'' \<mapsto> 2],
      state_name = Some ''STORY'', State = 0,
      objects = (\<lambda>a. example_state),
      display_caption = [], calls = []\<rparr>"

definition key_down :: "event \<times> pygame" where
  "key_down = (\<lparr>etype = KEYDOWN, ecode = 32\<rparr>, example_pygame)"

definition mouse_down :: "event \<times> pygame" where
  "mouse_down = (\<lparr>etype = MOUSEBUTTONDOWN, ecode = 1\<rparr>, example_pygame)"

definition example_frame :: frame where
  "example_frame =
     \<lparr>events = [key_down], cleanup_pg = example_pygame, startup_pg = example_pygame,
      update_pg = example_pygame, fps_text = ''60.00''\<rparr>"

definition idle_frame :: frame where
  "idle_frame = example_frame\<lparr>events := []\<rparr>"

definition click_frame :: frame where
  "click_frame = example_frame\<lparr>events := [mouse_down]\<rparr>"

text \<open>The example after a key press on the story screen, with and without a menu registered.\<close>

definition story_pressed :: "unit screen_attrs control" where
  "story_pressed = final (event_loop example_classes [key_down] example_control)"

definition story_alone_pressed :: "unit screen_attrs control" where
  "story_alone_pressed =
     final (event_loop example_classes [key_down]
       (example_control\<lparr>state_dict := [Some ''STORY'' \<mapsto> 0]\<rparr>))"

text \<open>The same after a key press, when the story screen has something to hand over.\<close>

definition carrying_pressed :: "unit screen_attrs control" where
  "carrying_pressed =
     final (event_loop example_classes [key_down]
       (example_control\<lparr>objects :=
          (objects example_control)(0 := example_state\<lparr>persist := [(''suns'', PyInt 50)]\<rparr>)\<rparr>))"

text \<open>The example with the menu, and with a direct instance of \<open>_State\<close>, as current state.\<close>

definition menu_control :: "unit screen_attrs control" where
  "menu_control = example_control\<lparr>state_name := Some ''MENU'', State := 1\<rparr>"

definition prototype_control :: "unit screen_attrs control" where
  "prototype_control = example_control\<lparr>state_name := Some ''PROTOTYPE'', State := 3,
     state_dict := (state_dict example_control)(Some ''PROTOTYPE'' \<mapsto> 3)\<rparr>"


section \<open>Auxiliary facts\<close>

lemma returns_final: "raised r = None \<Longrightarrow> r = Returns () (final r)"
  by (cases r) simp_all

lemma updated_simps [simp]:
  "updated [] = []"
  "updated (Call_update a # cs) = a # updated cs"
  "updated (Call_get_event a e # cs) = updated cs"
  "updated (Call_startup a p # cs) = updated cs"
  "updated (Call_cleanup a # cs) = updated cs"
  "updated (cs @ ds) = updated cs @ updated ds"
  by (simp_all add: updated_def)

lemma flip_state_Returns:
  assumes "flip_state cls pgc pgs c = Returns u c'"
  obtains p s1 a s2 where
    "cleanup_def (cls (State c)) pgc (objects c (State c)) = Returns p s1"
    "state_dict c (next (objects c (State c))) = Some a"
    "startup_def (cls a) p pgs (((objects c)(State c := s1)) a) = Returns () s2"
    "c' = c\<lparr>state_name := next (objects c (State c)),
            calls := calls c @ [Call_cleanup (State c), Call_startup a p],
            State := a,
            objects := (objects c)(State c := s1, a := s2\<lparr>previous := state_name c\<rparr>)\<rparr>"
  using assms
  by (auto simp: flip_state_def call_cleanup_def call_startup_def on_object_def Let_def
      split: outcome.splits option.splits)

lemma flip_state_calls_final:
  "updated (calls (final (flip_state cls pgc pgs c))) = updated (calls c)"
  by (auto simp: flip_state_def call_cleanup_def call_startup_def on_object_def Let_def
      split: outcome.splits option.splits)

lemma call_update_final:
  "calls (final (call_update cls pg c)) = calls c @ [Call_update (State c)]"
  "State (final (call_update cls pg c)) = State c"
  "control_done (final (call_update cls pg c)) = control_done c"
  "a \<noteq> State c \<Longrightarrow> objects (final (call_update cls pg c)) a = objects c a"
  by (auto simp: call_update_def Let_def split: outcome.splits prod.splits)

lemma call_update_done:
  "control_done (final (call_update cls pg c)) = control_done c"
  by (auto simp: call_update_def Let_def split: outcome.splits prod.splits)

lemma call_get_event_final:
  "State (final (call_get_event cls ev pg c)) = State c
   \<and> (a \<noteq> State c \<longrightarrow> objects (final (call_get_event cls ev pg c)) a = objects c a)"
  by (auto simp: call_get_event_def on_object_def split: outcome.splits get_event_def.splits)

lemma toggle_show_fps_simps [simp]:
  "State (toggle_show_fps c) = State c"
  "objects (toggle_show_fps c) = objects c"
  by (simp_all add: toggle_show_fps_def Let_def)

lemma event_loop_final:
  "State (final (event_loop cls evs c)) = State c
   \<and> (a \<noteq> State c \<longrightarrow> objects (final (event_loop cls evs c)) a = objects c a)"
proof (induction evs arbitrary: c)
  case Nil
  show ?case by simp
next
  case (Cons ep evs)
  obtain ev pg where ep: "ep = (ev, pg)" by (cases ep)
  let ?c1 = "(if etype ev = QUIT then c\<lparr>control_done := True\<rparr>
         else if etype ev \<in> {KEYDOWN, KEYUP}
           then toggle_show_fps (c\<lparr>keys := key_get_pressed pg\<rparr>)
         else if etype ev \<in> {MOUSEBUTTONDOWN, MOUSEBUTTONUP}
           then c\<lparr>mouse := mouse_get_pressed pg\<rparr>
         else c)"
  have c1: "State ?c1 = State c" "objects ?c1 = objects c" by simp_all
  show ?case
  proof (cases "call_get_event cls ev pg ?c1")
    case (Returns u c2)
    have "State c2 = State c" "a \<noteq> State c \<longrightarrow> objects c2 a = objects c a"
      using call_get_event_final [of cls ev pg ?c1 a] Returns c1 by auto
    then show ?thesis using Cons.IH [of c2] Returns ep by (simp add: Let_def)
  next
    case (Raises e c2)
    have "State c2 = State c" "a \<noteq> State c \<longrightarrow> objects c2 a = objects c a"
      using call_get_event_final [of cls ev pg ?c1 a] Raises c1 by auto
    then show ?thesis using Raises ep by (simp add: Let_def)
  qed
qed

lemma update_Returns_other:
  assumes "update cls f c = Returns u c'" "a \<noteq> State c" "a \<noteq> State c'"
  shows "objects c' a = objects c a"
proof (cases "quit (objects c (State c)) \<or> \<not> done (objects c (State c))")
  case True
  then show ?thesis
    using assms call_update_final(2) [where cls = cls and pg = "update_pg f"]
      call_update_final(4) [where cls = cls and pg = "update_pg f" and a = a]
    by (auto simp: update_def split: if_splits outcome.splits dest!: arg_cong [where f = final])
next
  case False
  then obtain c1 where f1: "flip_state cls (cleanup_pg f) (startup_pg f) c = Returns () c1"
      and u1: "call_update cls (update_pg f) c1 = Returns u c'"
    using assms(1) by (auto simp: update_def split: outcome.splits)
  have st: "State c' = State c1"
    using call_update_final(2) [where cls = cls and pg = "update_pg f" and c = c1] u1 by simp
  have "objects c' a = objects c1 a"
    using call_update_final(4) [where cls = cls and pg = "update_pg f" and c = c1 and a = a]
      u1 assms(3) st by simp
  moreover have "objects c1 a = objects c a"
    using f1 assms(2,3) st by (elim flip_state_Returns) auto
  ultimately show ?thesis by simp
qed

lemma iteration_Returns_other:
  assumes "iteration cls f c = Returns u c'" "a \<noteq> State c" "a \<noteq> State c'"
  shows "objects c' a = objects c a"
proof -
  obtain c1 c2 where e: "event_loop cls (events f) c = Returns () c1"
      and u: "update cls f c1 = Returns () c2"
      and c': "objects c' = objects c2" "State c' = State c2"
    using assms(1) by (auto simp: iteration_def split: outcome.splits if_splits)
  have "State c1 = State c" "objects c1 a = objects c a"
    using event_loop_final [of cls "events f" c a] e assms(2) by auto
  then show ?thesis using update_Returns_other [OF u, of a] assms c' by simp
qed

lemma away_unchanged:
  "away cls S fs c = Some c' \<Longrightarrow> State c' \<noteq> S \<and> objects c' S = objects c S"
proof (induction fs arbitrary: c)
  case Nil
  then show ?case by (auto split: if_splits)
next
  case (Cons f fs)
  then obtain c1 where i: "iteration cls f c = Returns () c1" and a: "away cls S fs c1 = Some c'"
    and n: "State c \<noteq> S"
    by (auto split: if_splits outcome.splits)
  have n1: "State c1 \<noteq> S" using a by (cases fs) (auto split: if_splits)
  have "objects c1 S = objects c S" using iteration_Returns_other [OF i, of S] n n1 by auto
  then show ?case using Cons.IH [OF a] by simp
qed

lemma call_update_effect:
  "raised (call_update cls pg c)
     = raised (update_def (cls (State c)) (keys c) (mouse c) pg (screen c, objects c (State c)))"
  "screen (final (call_update cls pg c))
     = fst (final (update_def (cls (State c)) (keys c) (mouse c) pg
         (screen c, objects c (State c))))"
  "objects (final (call_update cls pg c)) (State c)
     = snd (final (update_def (cls (State c)) (keys c) (mouse c) pg
         (screen c, objects c (State c))))"
  by (auto simp: call_update_def Let_def split: outcome.splits prod.splits)

lemma update_leaves:
  assumes "update cls f c = Returns u c'" and "State c' \<noteq> State c"
    and "cleanup_def (cls (State c)) = StateBase_cleanup"
  shows "\<not> done (objects c' (State c))"
proof (cases "quit (objects c (State c)) \<or> \<not> done (objects c (State c))")
  case True
  then have "update cls f c = call_update cls (update_pg f) c
      \<or> update cls f c = call_update cls (update_pg f) (c\<lparr>control_done := True\<rparr>)"
    by (auto simp: update_def)
  then have "State (final (update cls f c)) = State c"
    by (auto simp: call_update_final)
  then show ?thesis using assms(1,2) by simp
next
  case False
  then obtain c1 where f1: "flip_state cls (cleanup_pg f) (startup_pg f) c = Returns () c1"
      and u1: "call_update cls (update_pg f) c1 = Returns u c'"
    using assms(1) by (auto simp: update_def split: outcome.splits)
  have st: "State c' = State c1"
    using call_update_final(2) [where cls = cls and pg = "update_pg f" and c = c1] u1 by simp
  have "objects c' (State c) = objects c1 (State c)"
    using call_update_final(4) [where cls = cls and pg = "update_pg f" and c = c1
        and a = "State c"] u1 assms(2) st
    by simp
  moreover have "\<not> done (objects c1 (State c))"
    using f1 assms(2,3) st
    by (elim flip_state_Returns) (auto simp: StateBase_cleanup_def Let_def)
  ultimately show ?thesis by simp
qed

lemma iteration_leaves:
  assumes "iteration cls f c = Returns u c'" and "State c' \<noteq> State c"
    and "cleanup_def (cls (State c)) = StateBase_cleanup"
  shows "\<not> done (objects c' (State c))"
proof -
  obtain c1 c2 where e: "event_loop cls (events f) c = Returns () c1"
      and u: "update cls f c1 = Returns () c2"
      and c': "objects c' = objects c2" "State c' = State c2"
    using assms(1) by (auto simp: iteration_def split: outcome.splits if_splits)
  have s: "State c1 = State c"
    using event_loop_final [of cls "events f" c "State c"] e by simp
  show ?thesis
    using update_leaves [OF u] assms(2,3) s c' by simp
qed

lemma main_done: "control_done c \<Longrightarrow> main cls fs c = Some (Returns () c)"
  by (cases fs) simp_all


lemma sun_click_result:
  "Story_sun_click pg obj self = r \<Longrightarrow>
     final r = self
     \<or> (obj \<in> set (suns (attrs self))
        \<and> final r = self\<lparr>attrs := (attrs self)\<lparr>suns := remove1 obj (suns (attrs self))\<rparr>\<rparr>
        \<and> r = Returns True (final r))"
  by (auto simp: Story_sun_click_def Let_def split: if_splits sum.splits)

lemma sun_loop_result:
  "snd (final (Story_sun_loop U pg objs (surface, self))) = self
   \<or> (\<exists>obj. obj \<in> set (suns (attrs self))
        \<and> snd (final (Story_sun_loop U pg objs (surface, self)))
            = self\<lparr>attrs := (attrs self)\<lparr>suns := remove1 obj (suns (attrs self))\<rparr>\<rparr>)"
proof (induction objs arbitrary: surface)
  case Nil
  show ?case by simp
next
  case (Cons obj objs)
  show ?case
  proof (cases "Story_sun_click pg obj self")
    case (Raises e s)
    then show ?thesis using sun_click_result [OF Raises] by auto
  next
    case (Returns b s)
    show ?thesis
    proof (cases b)
      case True
      then show ?thesis using Returns sun_click_result [OF Returns] by auto
    next
      case False
      then have "s = self" using Returns sun_click_result [OF Returns] by auto
      then show ?thesis
        using Returns False Cons.IH [of "surface @ [Blit (image obj) (image_rect obj)]"]
        by (simp add: Let_def)
    qed
  qed
qed

lemma sun_loop_ignores_update:
  "Story_sun_loop U pg objs ss = Story_sun_loop U' pg objs ss"
proof (induction objs arbitrary: ss)
  case Nil
  show ?case by (cases ss) simp
next
  case (Cons obj objs)
  show ?case
    by (cases ss) (simp add: Let_def Cons.IH split: outcome.splits)
qed

section \<open>Leaving the main loop\<close>

text \<open>
  C1 (amended): for every state whose \<open>quit\<close> flag is true when the event dispatch of
  a frame ends, for instance because its \<open>get_event\<close> set it, \<open>Control.update\<close> sets the
  controller's \<open>done\<close> flag, makes no transition and still calls that state's \<open>update\<close>
  once in that frame: the body of the method runs on the screen and on the state, and what
  it leaves there, and whether it raises, is what the frame leaves. The main loop is left
  at the end of that same iteration, normally or by an exception of that \<open>update\<close>:
  whatever frames follow, none of their events is dispatched and no further \<open>update\<close> is
  called.
\<close>

theorem quit_after_events_ends_main:
  assumes "\<not> control_done c"
    and "event_loop cls (events f) c = Returns u c1"
    and "quit (objects c1 (State c1))"
  shows "\<exists>r. main cls (f # fs) c = Some r
           \<and> control_done (final r) \<and> State (final r) = State c1
           \<and> calls (final r) = calls c1 @ [Call_update (State c1)]
           \<and> raised r = raised (update_def (cls (State c1)) (keys c1) (mouse c1) (update_pg f)
                 (screen c1, objects c1 (State c1)))
           \<and> (screen (final r), objects (final r) (State c1))
               = final (update_def (cls (State c1)) (keys c1) (mouse c1) (update_pg f)
                   (screen c1, objects c1 (State c1)))"
proof -
  let ?c2 = "c1\<lparr>control_done := True\<rparr>"
  let ?m = "update_def (cls (State c1)) (keys c1) (mouse c1) (update_pg f)
              (screen c1, objects c1 (State c1))"
  have upd: "update cls f c1 = call_update cls (update_pg f) ?c2"
    using assms(3) by (simp add: update_def)
  have fin: "control_done (final (call_update cls (update_pg f) ?c2))"
      "State (final (call_update cls (update_pg f) ?c2)) = State c1"
      "calls (final (call_update cls (update_pg f) ?c2)) = calls c1 @ [Call_update (State c1)]"
    using call_update_final(1,2) [where cls = cls and pg = "update_pg f" and c = ?c2]
      call_update_done [of cls "update_pg f" ?c2]
    by simp_all
  have eff: "raised (call_update cls (update_pg f) ?c2) = raised ?m"
      "screen (final (call_update cls (update_pg f) ?c2)) = fst (final ?m)"
      "objects (final (call_update cls (update_pg f) ?c2)) (State c1) = snd (final ?m)"
    using call_update_effect [where cls = cls and pg = "update_pg f" and c = ?c2]
    by simp_all
  show ?thesis
  proof (cases "call_update cls (update_pg f) ?c2")
    case (Raises e c3)
    then have "main cls (f # fs) c = Some (Raises e c3)"
      using assms(1,2) upd by (simp add: iteration_def)
    then show ?thesis using fin eff Raises by simp
  next
    case (Returns v c3)
    define c4 where "c4 = (if show_fps c3
                  then c3\<lparr>display_caption := caption c3 @ '' - '' @ fps_text f @ '' FPS''\<rparr>
                  else c3)"
    have "iteration cls f c = Returns () c4"
      using assms(2) upd Returns by (simp add: iteration_def c4_def)
    moreover have c4: "control_done c4" "State c4 = State c1"
        "calls c4 = calls c1 @ [Call_update (State c1)]"
        "raised ?m = None" "screen c4 = fst (final ?m)"
        "objects c4 (State c1) = snd (final ?m)"
      using fin eff Returns by (simp_all add: c4_def)
    ultimately have "main cls (f # fs) c = Some (Returns () c4)"
      using assms(1) main_done [of c4 cls fs] by simp
    then show ?thesis using c4 by simp
  qed
qed

text \<open>
  The specification says instead that \<open>update\<close> is never called again on such a state.
  That fails: the menu sets \<open>quit\<close> in \<open>get_event\<close> on a mouse click, and its
  \<open>update\<close> is called after that, in the same frame, and draws on the empty screen.
\<close>

theorem quit_in_get_event_counterexample:
  "\<not> quit (objects menu_control 1)
   \<and> screen menu_control = []
   \<and> quit (objects (final (event_loop example_classes [mouse_down] menu_control)) 1)
   \<and> history (main example_classes [click_frame, example_frame] menu_control)
       = [Call_get_event 1 \<lparr>etype = MOUSEBUTTONDOWN, ecode = 1\<rparr>, Call_update 1]
   \<and> shown (main example_classes [click_frame, example_frame] menu_control)
       = [Fill (0, 0, 0),
          Blit ''Story'' \<lparr>rect_x = 380, rect_y = 190, rect_w = 40, rect_h = 20\<rparr>,
          Blit ''[Press Any Key]'' \<lparr>rect_x = 340, rect_y = 490, rect_w = 120, rect_h = 20\<rparr>]"
  by code_simp

theorem quit_after_events_ends_main_witness:
  "\<not> control_done menu_control
   \<and> event_loop example_classes (events click_frame) menu_control
       = Returns () (final (event_loop example_classes (events click_frame) menu_control))
   \<and> quit (objects (final (event_loop example_classes (events click_frame) menu_control))
        (State (final (event_loop example_classes (events click_frame) menu_control))))
   \<and> (\<exists>r. main example_classes [click_frame, example_frame] menu_control = Some r
           \<and> control_done (final r) \<and> State (final r) = 1
           \<and> calls (final r) = [Call_get_event 1 (fst mouse_down), Call_update 1]
           \<and> raised r = None
           \<and> screen (final r)
               = [Fill (0, 0, 0),
                  Blit ''Story'' \<lparr>rect_x = 380, rect_y = 190, rect_w = 40, rect_h = 20\<rparr>,
                  Blit ''[Press Any Key]''
                    \<lparr>rect_x = 340, rect_y = 490, rect_w = 120, rect_h = 20\<rparr>]
           \<and> blink (attrs (objects (final r) 1)))"
proof -
  let ?c1 = "final (event_loop example_classes (events click_frame) menu_control)"
  let ?m = "update_def (example_classes (State ?c1)) (keys ?c1) (mouse ?c1)
              (update_pg click_frame) (screen ?c1, objects ?c1 (State ?c1))"
  have h1: "\<not> control_done menu_control" by code_simp
  have "raised (event_loop example_classes (events click_frame) menu_control) = None"
    by code_simp
  then have h2: "event_loop example_classes (events click_frame) menu_control = Returns () ?c1"
    by (rule returns_final)
  have h3: "quit (objects ?c1 (State ?c1))" by code_simp
  have e: "State ?c1 = 1" "calls ?c1 = [Call_get_event 1 (fst mouse_down)]" by code_simp+
  have m: "raised ?m = None"
    "fst (final ?m)
       = [Fill (0, 0, 0),
          Blit ''Story'' \<lparr>rect_x = 380, rect_y = 190, rect_w = 40, rect_h = 20\<rparr>,
          Blit ''[Press Any Key]'' \<lparr>rect_x = 340, rect_y = 490, rect_w = 120, rect_h = 20\<rparr>]"
    "blink (attrs (snd (final ?m)))"
    by code_simp+
  obtain r where r: "main example_classes [click_frame, example_frame] menu_control = Some r"
    "control_done (final r)" "State (final r) = State ?c1"
    "calls (final r) = calls ?c1 @ [Call_update (State ?c1)]"
    "raised r = raised ?m"
    "(screen (final r), objects (final r) (State ?c1)) = final ?m"
    using quit_after_events_ends_main [OF h1 h2 h3, of "[example_frame]"] by blast
  have "screen (final r) = fst (final ?m)" "objects (final r) 1 = snd (final ?m)"
    using r(6) e(1) by (simp_all add: prod_eq_iff)
  then show ?thesis
    using h1 h2 h3 r(1,2,3,4,5) m unfolding e by auto
qed

section \<open>\<open>_State.startup\<close>\<close>

text \<open>
  C2 (amended): for every state and every persist mapping \<open>p\<close>, \<open>startup(p)\<close> returns
  normally, stores \<open>p\<close> as the state's persist mapping and sets \<open>start_time\<close> to the
  current time; it leaves \<open>done\<close> as it was, like every other field. The reset of
  \<open>done\<close> is the work of \<open>cleanup\<close>.
\<close>

theorem startup_sets_persist_and_start_time:
  "\<exists>self'. StateBase_startup p pg self = Returns () self'
     \<and> persist self' = p
     \<and> start_time self' = get_ticks pg 0
     \<and> done self' = done self
     \<and> quit self' = quit self
     \<and> next self' = next self
     \<and> previous self' = previous self
     \<and> attrs self' = attrs self"
  by (simp add: StateBase_startup_def)

text \<open>
  The specification says instead that \<open>startup\<close> resets \<open>done\<close>. That fails: a
  state whose \<open>done\<close> is true still has it true after \<open>startup\<close>.
\<close>

theorem startup_keeps_done_counterexample:
  "done (final (StateBase_startup [] example_pygame (example_state\<lparr>done := True\<rparr>)))"
  by (simp add: StateBase_startup_def)

section \<open>\<open>Control.flip_state\<close>\<close>

text \<open>
  C3: when the current state's \<open>next\<close> is not a key of the state mapping (and
  \<open>cleanup\<close> of the current state returns, as that of \<open>_State\<close> always does),
  \<open>flip_state\<close> raises \<open>KeyError\<close> with the missing key. The exception comes before
  anything of another state is touched: at that point \<open>state_name\<close> holds the missing key
  and the outgoing state has been cleaned up, but \<open>State\<close> still refers to the outgoing
  state, every other object is as it was, and the only call made is that \<open>cleanup\<close>.
  Of the two outcomes that the specification allows, this is the second; the first, no
  mutation at all, is not what happens.
\<close>

theorem flip_state_unregistered_target:
  assumes "state_dict c (next (objects c (State c))) = None"
    and "cleanup_def (cls (State c)) pgc (objects c (State c)) = Returns p s1"
  shows "flip_state cls pgc pgs c =
     Raises (KeyError (next (objects c (State c))))
       (c\<lparr>state_name := next (objects c (State c)),
          calls := calls c @ [Call_cleanup (State c)],
          objects := (objects c)(State c := s1)\<rparr>)"
  using assms by (simp add: flip_state_def call_cleanup_def on_object_def Let_def)

theorem flip_state_unregistered_target_witness:
  "state_dict story_alone_pressed (next (objects story_alone_pressed (State story_alone_pressed)))
     = None
   \<and> cleanup_def (example_classes (State story_alone_pressed)) example_pygame
        (objects story_alone_pressed (State story_alone_pressed))
       = Returns [] ((objects story_alone_pressed (State story_alone_pressed))\<lparr>done := False\<rparr>)
   \<and> flip_state example_classes example_pygame example_pygame story_alone_pressed
       = Raises (KeyError (next (objects story_alone_pressed (State story_alone_pressed))))
           (story_alone_pressed
             \<lparr>state_name := next (objects story_alone_pressed (State story_alone_pressed)),
              calls := calls story_alone_pressed @ [Call_cleanup (State story_alone_pressed)],
              objects := (objects story_alone_pressed)
                (State story_alone_pressed :=
                   (objects story_alone_pressed (State story_alone_pressed))\<lparr>done := False\<rparr>)\<rparr>)
   \<and> next (objects story_alone_pressed (State story_alone_pressed)) = Some ''MENU''
   \<and> state_name story_alone_pressed = Some ''STORY''"
proof -
  have h1: "state_dict story_alone_pressed
      (next (objects story_alone_pressed (State story_alone_pressed))) = None"
    by code_simp
  have h2: "cleanup_def (example_classes (State story_alone_pressed)) example_pygame
        (objects story_alone_pressed (State story_alone_pressed))
       = Returns [] ((objects story_alone_pressed (State story_alone_pressed))\<lparr>done := False\<rparr>)"
    by code_simp
  have h3: "next (objects story_alone_pressed (State story_alone_pressed)) = Some ''MENU''"
    "state_name story_alone_pressed = Some ''STORY''"
    by code_simp+
  show ?thesis
    using h1 h2 h3
      flip_state_unregistered_target [where cls = example_classes and c = story_alone_pressed
        and pgc = example_pygame and pgs = example_pygame, OF h1 h2]
    by blast
qed

text \<open>
  C4: in every transition that completes, \<open>cleanup\<close> of the outgoing state is called
  first and \<open>startup\<close> of the incoming state next, and the mapping that this \<open>startup\<close>
  receives is the one that this \<open>cleanup\<close> returned: the body of \<open>startup\<close> runs with
  that mapping on the incoming state as \<open>cleanup\<close> left the store, and what it leaves is
  the new current state (with \<open>previous\<close> set). With the \<open>startup\<close> of \<open>_State\<close> the
  mapping ends up as the incoming state's \<open>persist\<close>.
\<close>

theorem flip_state_cleanup_then_startup:
  assumes "flip_state cls pgc pgs c = Returns u c'"
  shows "\<exists>p s1 s2.
           cleanup_def (cls (State c)) pgc (objects c (State c)) = Returns p s1
         \<and> startup_def (cls (State c')) p pgs (((objects c)(State c := s1)) (State c'))
             = Returns () s2
         \<and> objects c'
             = (objects c)(State c := s1, State c' := s2\<lparr>previous := state_name c\<rparr>)
         \<and> calls c' = calls c @ [Call_cleanup (State c), Call_startup (State c') p]
         \<and> (startup_def (cls (State c')) = StateBase_startup
              \<longrightarrow> persist (objects c' (State c')) = p)"
  using assms
proof (elim flip_state_Returns)
  fix p s1 a s2
  assume a: "cleanup_def (cls (State c)) pgc (objects c (State c)) = Returns p s1"
    "startup_def (cls a) p pgs (((objects c)(State c := s1)) a) = Returns () s2"
    "c' = c\<lparr>state_name := next (objects c (State c)),
            calls := calls c @ [Call_cleanup (State c), Call_startup a p],
            State := a,
            objects := (objects c)(State c := s1, a := s2\<lparr>previous := state_name c\<rparr>)\<rparr>"
  have st: "State c' = a" using a(3) by simp
  have "startup_def (cls a) = StateBase_startup \<longrightarrow> persist s2 = p"
    using a(2) by (auto simp: StateBase_startup_def)
  then show ?thesis
    using a unfolding st by (intro exI [of _ p] exI [of _ s1] exI [of _ s2]) simp
qed

theorem flip_state_cleanup_then_startup_witness:
  "flip_state example_classes example_pygame example_pygame carrying_pressed
     = Returns ()
         (final (flip_state example_classes example_pygame example_pygame carrying_pressed))
   \<and> persist (objects carrying_pressed 0) = [(''suns'', PyInt 50)]
   \<and> persist (objects carrying_pressed 1) = []
   \<and> calls (final (flip_state example_classes example_pygame example_pygame carrying_pressed))
       = calls carrying_pressed @ [Call_cleanup 0, Call_startup 1 [(''suns'', PyInt 50)]]
   \<and> persist (objects
         (final (flip_state example_classes example_pygame example_pygame carrying_pressed)) 1)
       = [(''suns'', PyInt 50)]"
proof -
  let ?c' = "final (flip_state example_classes example_pygame example_pygame carrying_pressed)"
  have "raised (flip_state example_classes example_pygame example_pygame carrying_pressed)
      = None"
    by code_simp
  then have h: "flip_state example_classes example_pygame example_pygame carrying_pressed
     = Returns () ?c'"
    by (rule returns_final)
  have e: "State carrying_pressed = 0" "State ?c' = 1"
    "persist (objects carrying_pressed 0) = [(''suns'', PyInt 50)]"
    "persist (objects carrying_pressed 1) = []"
    by code_simp+
  have k: "startup_def (example_classes 1) = StateBase_startup"
    "cleanup_def (example_classes 0) = StateBase_cleanup"
    by (simp_all add: example_classes_def Menu_class_def Story_class_def)
  obtain p s1 s2 where r:
    "cleanup_def (example_classes (State carrying_pressed)) example_pygame
       (objects carrying_pressed (State carrying_pressed)) = Returns p s1"
    "calls ?c' = calls carrying_pressed
       @ [Call_cleanup (State carrying_pressed), Call_startup (State ?c') p]"
    "startup_def (example_classes (State ?c')) = StateBase_startup
       \<longrightarrow> persist (objects ?c' (State ?c')) = p"
    using flip_state_cleanup_then_startup [OF h] by blast
  have "p = [(''suns'', PyInt 50)]"
    using r(1) e(3) unfolding e(1) k by (simp add: StateBase_cleanup_def Let_def)
  then show ?thesis using h r(2,3) e k by simp
qed

text \<open>
  C5: after every transition that completes, the \<open>previous\<close> field of the new current
  state is the name of the state that was current before it.
\<close>

theorem flip_state_previous:
  assumes "flip_state cls pgc pgs c = Returns u c'"
  shows "previous (objects c' (State c')) = state_name c"
  using assms by (elim flip_state_Returns) simp

theorem flip_state_previous_witness:
  "flip_state example_classes example_pygame example_pygame story_pressed
     = Returns () (final (flip_state example_classes example_pygame example_pygame story_pressed))
   \<and> previous (objects (final (flip_state example_classes example_pygame example_pygame
         story_pressed)) 1) = Some ''STORY''"
proof -
  let ?c' = "final (flip_state example_classes example_pygame example_pygame story_pressed)"
  have "raised (flip_state example_classes example_pygame example_pygame story_pressed) = None"
    by code_simp
  then have h: "flip_state example_classes example_pygame example_pygame story_pressed
     = Returns () ?c'"
    by (rule returns_final)
  have e: "State ?c' = 1" "state_name story_pressed = Some ''STORY''" by code_simp+
  show ?thesis using h flip_state_previous [OF h] unfolding e by simp
qed

text \<open>
  C6: let \<open>S\<close> be a state that inherits \<open>startup\<close> and \<open>cleanup\<close> from \<open>_State\<close>,
  as the screens of the source do. Suppose that \<open>S\<close> is current at the start of a pass of
  the main loop and another state is current at its end (which takes \<open>done\<close> to be set
  on \<open>S\<close>), that any number of passes follow during which \<open>S\<close> is not current, and that
  in a further pass, after the event dispatch, the transition that \<open>Control.update\<close>
  makes leads back into \<open>S\<close>. Then \<open>done\<close> of \<open>S\<close> is false when that transition
  returns, and that is the controller on which \<open>Control.update\<close> goes on to call the
  \<open>update\<close> of \<open>S\<close>.
\<close>

theorem reentry_done_false:
  assumes "cleanup_def (cls S) = StateBase_cleanup" and "startup_def (cls S) = StateBase_startup"
    and "State c0 = S"
    and "iteration cls f c0 = Returns u c1" and "State c1 \<noteq> S"
    and "away cls S fs c1 = Some c2"
    and "event_loop cls (events g) c2 = Returns u' c3"
    and "\<not> quit (objects c3 (State c3))" and "done (objects c3 (State c3))"
    and "flip_state cls (cleanup_pg g) (startup_pg g) c3 = Returns u'' c4" and "State c4 = S"
  shows "update cls g c3 = call_update cls (update_pg g) c4 \<and> \<not> done (objects c4 S)"
proof -
  have "\<not> done (objects c1 S)"
    using iteration_leaves [OF assms(4)] assms(1,3,5) by simp
  then have "State c2 \<noteq> S" "\<not> done (objects c2 S)"
    using away_unchanged [OF assms(6)] by simp_all
  then have "State c3 \<noteq> S" "\<not> done (objects c3 S)"
    using event_loop_final [of cls "events g" c2 S] assms(7) by simp_all
  then have "\<not> done (objects c4 S)"
    using assms(2,10,11) by (elim flip_state_Returns) (auto simp: StateBase_startup_def)
  moreover have "update cls g c3 = call_update cls (update_pg g) c4"
    using assms(8,9,10) by (simp add: update_def)
  ultimately show ?thesis by simp
qed

theorem reentry_done_false_witness:
  "State example_control = 0
   \<and> done (objects (final (event_loop example_classes (events example_frame) example_control)) 0)
   \<and> State (final (iteration example_classes example_frame example_control)) = 1
   \<and> State
        (final (flip_state example_classes example_pygame example_pygame
          (final (event_loop example_classes (events example_frame)
            (the (away example_classes 0 [idle_frame]
              (final (iteration example_classes example_frame example_control)))))))) = 0
   \<and> \<not> done (objects
        (final (flip_state example_classes example_pygame example_pygame
          (final (event_loop example_classes (events example_frame)
            (the (away example_classes 0 [idle_frame]
              (final (iteration example_classes example_frame example_control)))))))) 0)"
proof -
  let ?c1 = "final (iteration example_classes example_frame example_control)"
  let ?c2 = "the (away example_classes 0 [idle_frame] ?c1)"
  let ?c3 = "final (event_loop example_classes (events example_frame) ?c2)"
  let ?c4 = "final (flip_state example_classes example_pygame example_pygame ?c3)"
  have a1: "cleanup_def (example_classes 0) = StateBase_cleanup"
    and a2: "startup_def (example_classes 0) = StateBase_startup"
    by (simp_all add: example_classes_def Story_class_def)
  have a3: "State example_control = 0" by code_simp
  have d: "done (objects (final (event_loop example_classes (events example_frame)
      example_control)) 0)"
    by code_simp
  have "raised (iteration example_classes example_frame example_control) = None"
    by code_simp
  then have a4: "iteration example_classes example_frame example_control = Returns () ?c1"
    by (rule returns_final)
  have s1: "State ?c1 = 1" by code_simp
  then have a5: "State ?c1 \<noteq> 0" by simp
  have "\<not> Option.is_none (away example_classes 0 [idle_frame] ?c1)" by code_simp
  then have a6: "away example_classes 0 [idle_frame] ?c1 = Some ?c2"
    by (simp add: Option.is_none_def)
  have "raised (event_loop example_classes (events example_frame) ?c2) = None" by code_simp
  then have a7: "event_loop example_classes (events example_frame) ?c2 = Returns () ?c3"
    by (rule returns_final)
  have a8: "\<not> quit (objects ?c3 (State ?c3))" and a9: "done (objects ?c3 (State ?c3))"
    by code_simp+
  have p: "cleanup_pg example_frame = example_pygame" "startup_pg example_frame = example_pygame"
    by (simp_all add: example_frame_def)
  have "raised (flip_state example_classes example_pygame example_pygame ?c3) = None"
    by code_simp
  then have "flip_state example_classes example_pygame example_pygame ?c3 = Returns () ?c4"
    by (rule returns_final)
  then have a10: "flip_state example_classes (cleanup_pg example_frame)
      (startup_pg example_frame) ?c3 = Returns () ?c4"
    unfolding p .
  have a11: "State ?c4 = 0" by code_simp
  show ?thesis
    using a3 d s1 a11 reentry_done_false [OF a1 a2 a3 a4 a5 a6 a7 a8 a9 a10 a11] by blast
qed

section \<open>\<open>Control.update\<close>\<close>

text \<open>
  C7 (amended): in every call of \<open>Control.update\<close>, \<open>update\<close> is called on at most one
  state, and on no other state than the one that is current when the call ends. When no
  transition is due, or the transition that is due completes, it is called on exactly one:
  on the current state when no transition is due; after a transition on the new state, the
  one that the old state's \<open>next\<close> names, after \<open>cleanup\<close> of the old state and
  \<open>startup\<close> of the new state, in this order. In both cases the body of that \<open>update\<close>
  runs on the screen and on that state, and what it leaves there, and whether it raises,
  is what the call leaves. When the transition that is due raises, the call ends with that
  exception and \<open>update\<close> is called on no state.
\<close>

theorem update_calls_exactly_one_update:
  "(updated (calls (final (update cls f c))) = updated (calls c)
      \<or> updated (calls (final (update cls f c)))
          = updated (calls c) @ [State (final (update cls f c))])
   \<and> (quit (objects c (State c)) \<or> \<not> done (objects c (State c)) \<longrightarrow>
        State (final (update cls f c)) = State c
        \<and> calls (final (update cls f c)) = calls c @ [Call_update (State c)]
        \<and> raised (update cls f c)
            = raised (update_def (cls (State c)) (keys c) (mouse c) (update_pg f)
                (screen c, objects c (State c)))
        \<and> (screen (final (update cls f c)), objects (final (update cls f c)) (State c))
            = final (update_def (cls (State c)) (keys c) (mouse c) (update_pg f)
                (screen c, objects c (State c))))
   \<and> (\<not> quit (objects c (State c)) \<and> done (objects c (State c))
        \<and> flip_state cls (cleanup_pg f) (startup_pg f) c = Returns u c1 \<longrightarrow>
        State (final (update cls f c)) = State c1
        \<and> state_dict c (next (objects c (State c))) = Some (State c1)
        \<and> (\<exists>p. calls (final (update cls f c)) = calls c @
              [Call_cleanup (State c), Call_startup (State c1) p, Call_update (State c1)])
        \<and> raised (update cls f c)
            = raised (update_def (cls (State c1)) (keys c1) (mouse c1) (update_pg f)
                (screen c1, objects c1 (State c1)))
        \<and> (screen (final (update cls f c)), objects (final (update cls f c)) (State c1))
            = final (update_def (cls (State c1)) (keys c1) (mouse c1) (update_pg f)
                (screen c1, objects c1 (State c1))))
   \<and> (\<not> quit (objects c (State c)) \<and> done (objects c (State c))
        \<and> flip_state cls (cleanup_pg f) (startup_pg f) c = Raises e c2 \<longrightarrow>
        update cls f c = Raises e c2
        \<and> updated (calls (final (update cls f c))) = updated (calls c))"
proof (intro conjI impI)
  show "updated (calls (final (update cls f c))) = updated (calls c)
     \<or> updated (calls (final (update cls f c)))
         = updated (calls c) @ [State (final (update cls f c))]"
    using flip_state_calls_final [of cls "cleanup_pg f" "startup_pg f" c]
    by (auto simp: update_def call_update_final split: outcome.splits)
next
  assume "quit (objects c (State c)) \<or> \<not> done (objects c (State c))"
  then have "update cls f c = call_update cls (update_pg f) c
      \<or> update cls f c = call_update cls (update_pg f) (c\<lparr>control_done := True\<rparr>)"
    by (auto simp: update_def)
  then show "State (final (update cls f c)) = State c"
    and "calls (final (update cls f c)) = calls c @ [Call_update (State c)]"
    and "raised (update cls f c)
            = raised (update_def (cls (State c)) (keys c) (mouse c) (update_pg f)
                (screen c, objects c (State c)))"
    and "(screen (final (update cls f c)), objects (final (update cls f c)) (State c))
            = final (update_def (cls (State c)) (keys c) (mouse c) (update_pg f)
                (screen c, objects c (State c)))"
    using call_update_effect [where cls = cls and pg = "update_pg f" and c = c]
      call_update_effect [where cls = cls and pg = "update_pg f"
        and c = "c\<lparr>control_done := True\<rparr>"]
    by (auto simp: call_update_final prod_eq_iff)
next
  assume a: "\<not> quit (objects c (State c)) \<and> done (objects c (State c))
        \<and> flip_state cls (cleanup_pg f) (startup_pg f) c = Returns u c1"
  then have u: "update cls f c = call_update cls (update_pg f) c1"
    by (simp add: update_def)
  show "State (final (update cls f c)) = State c1"
    by (simp add: u call_update_final)
  show "state_dict c (next (objects c (State c))) = Some (State c1)"
    using a by (elim conjE flip_state_Returns) simp
  show "\<exists>p. calls (final (update cls f c)) = calls c @
              [Call_cleanup (State c), Call_startup (State c1) p, Call_update (State c1)]"
    using a by (elim conjE flip_state_Returns) (simp add: u call_update_final)
  show "raised (update cls f c)
            = raised (update_def (cls (State c1)) (keys c1) (mouse c1) (update_pg f)
                (screen c1, objects c1 (State c1)))"
    by (simp add: u call_update_effect)
  show "(screen (final (update cls f c)), objects (final (update cls f c)) (State c1))
            = final (update_def (cls (State c1)) (keys c1) (mouse c1) (update_pg f)
                (screen c1, objects c1 (State c1)))"
    by (simp add: u call_update_effect prod_eq_iff)
next
  assume b: "\<not> quit (objects c (State c)) \<and> done (objects c (State c))
        \<and> flip_state cls (cleanup_pg f) (startup_pg f) c = Raises e c2"
  then show u: "update cls f c = Raises e c2"
    by (simp add: update_def)
  show "updated (calls (final (update cls f c))) = updated (calls c)"
    using flip_state_calls_final [of cls "cleanup_pg f" "startup_pg f" c] b u by simp
qed

text \<open>
  The specification says instead that exactly one \<open>update\<close> is called in every call of
  \<open>Control.update\<close>. That fails when the story screen is registered alone: after a key
  press it is done and names the menu, \<open>flip_state\<close> raises \<open>KeyError\<close>, and the call
  ends with no \<open>update\<close> called.
\<close>

theorem update_without_update_call_counterexample:
  "State story_alone_pressed = 0
   \<and> \<not> quit (objects story_alone_pressed 0)
   \<and> done (objects story_alone_pressed 0)
   \<and> calls story_alone_pressed = [Call_get_event 0 \<lparr>etype = KEYDOWN, ecode = 32\<rparr>]
   \<and> raised (update example_classes example_frame story_alone_pressed)
       = Some (KeyError (Some ''MENU''))
   \<and> calls (final (update example_classes example_frame story_alone_pressed))
       = [Call_get_event 0 \<lparr>etype = KEYDOWN, ecode = 32\<rparr>, Call_cleanup 0]
   \<and> updated (calls (final (update example_classes example_frame story_alone_pressed))) = []"
  by code_simp

theorem update_calls_exactly_one_update_witness:
  "(quit (objects (final (event_loop example_classes [mouse_down] menu_control)) 1)
    \<and> calls (final (update example_classes example_frame
          (final (event_loop example_classes [mouse_down] menu_control))))
        = [Call_get_event 1 (fst mouse_down), Call_update 1])
   \<and> (\<not> quit (objects story_pressed (State story_pressed))
       \<and> done (objects story_pressed (State story_pressed))
       \<and> flip_state example_classes example_pygame example_pygame story_pressed
           = Returns () (final (flip_state example_classes example_pygame example_pygame
               story_pressed))
       \<and> State (final (update example_classes example_frame story_pressed)) = 1
       \<and> (\<exists>p. calls (final (update example_classes example_frame story_pressed))
            = calls story_pressed @ [Call_cleanup 0, Call_startup 1 p, Call_update 1])
       \<and> raised (update example_classes example_frame story_pressed) = None
       \<and> screen story_pressed = []
       \<and> screen (final (update example_classes example_frame story_pressed))
           = [Fill (0, 0, 0),
              Blit ''Story'' \<lparr>rect_x = 380, rect_y = 190, rect_w = 40, rect_h = 20\<rparr>,
              Blit ''[Press Any Key]''
                \<lparr>rect_x = 340, rect_y = 490, rect_w = 120, rect_h = 20\<rparr>]
       \<and> blink (attrs (objects (final (update example_classes example_frame story_pressed)) 1)))
   \<and> (flip_state example_classes example_pygame example_pygame story_alone_pressed
         = Raises (KeyError (Some ''MENU''))
             (final (flip_state example_classes example_pygame example_pygame
                story_alone_pressed))
       \<and> update example_classes example_frame story_alone_pressed
           = Raises (KeyError (Some ''MENU''))
               (final (flip_state example_classes example_pygame example_pygame
                  story_alone_pressed)))"
proof -
  let ?m = "final (event_loop example_classes [mouse_down] menu_control)"
  let ?c1 = "final (flip_state example_classes example_pygame example_pygame story_pressed)"
  let ?c2 = "final (flip_state example_classes example_pygame example_pygame
               story_alone_pressed)"
  let ?b = "update_def (example_classes (State ?c1)) (keys ?c1) (mouse ?c1)
              (update_pg example_frame) (screen ?c1, objects ?c1 (State ?c1))"
  have m: "quit (objects ?m 1)" "State ?m = 1" "calls ?m = [Call_get_event 1 (fst mouse_down)]"
    by code_simp+
  have e: "\<not> quit (objects story_pressed (State story_pressed))"
    "done (objects story_pressed (State story_pressed))"
    "State story_pressed = 0" "State ?c1 = 1" "screen story_pressed = []"
    by code_simp+
  have "raised (flip_state example_classes example_pygame example_pygame story_pressed) = None"
    by code_simp
  then have h: "flip_state example_classes example_pygame example_pygame story_pressed
      = Returns () ?c1"
    by (rule returns_final)
  have b: "raised ?b = None"
    "fst (final ?b)
       = [Fill (0, 0, 0),
          Blit ''Story'' \<lparr>rect_x = 380, rect_y = 190, rect_w = 40, rect_h = 20\<rparr>,
          Blit ''[Press Any Key]'' \<lparr>rect_x = 340, rect_y = 490, rect_w = 120, rect_h = 20\<rparr>]"
    "blink (attrs (snd (final ?b)))"
    by code_simp+
  have a: "\<not> quit (objects story_alone_pressed (State story_alone_pressed))"
    "done (objects story_alone_pressed (State story_alone_pressed))"
    by code_simp+
  have "raised (flip_state example_classes example_pygame example_pygame story_alone_pressed)
      = Some (KeyError (Some ''MENU''))"
    by code_simp
  then have k: "flip_state example_classes example_pygame example_pygame story_alone_pressed
      = Raises (KeyError (Some ''MENU'')) ?c2"
    by (cases "flip_state example_classes example_pygame example_pygame story_alone_pressed")
      simp_all
  have p: "cleanup_pg example_frame = example_pygame" "startup_pg example_frame = example_pygame"
    by (simp_all add: example_frame_def)
  have t1: "calls (final (update example_classes example_frame ?m))
      = calls ?m @ [Call_update (State ?m)]"
    using m update_calls_exactly_one_update [where cls = example_classes
        and f = example_frame and c = ?m and u = "()" and ?c1.0 = ?m
        and e = TypeError and ?c2.0 = ?m]
    by simp
  have t2: "State (final (update example_classes example_frame story_pressed)) = State ?c1"
    "\<exists>p. calls (final (update example_classes example_frame story_pressed))
       = calls story_pressed @ [Call_cleanup (State story_pressed),
           Call_startup (State ?c1) p, Call_update (State ?c1)]"
    "raised (update example_classes example_frame story_pressed) = raised ?b"
    "(screen (final (update example_classes example_frame story_pressed)),
      objects (final (update example_classes example_frame story_pressed)) (State ?c1))
       = final ?b"
    using e h update_calls_exactly_one_update [where cls = example_classes
        and f = example_frame and c = story_pressed and u = "()" and ?c1.0 = ?c1
        and e = TypeError and ?c2.0 = ?c1]
    unfolding p by simp_all
  have t3: "update example_classes example_frame story_alone_pressed
      = Raises (KeyError (Some ''MENU'')) ?c2"
    using a k update_calls_exactly_one_update [where cls = example_classes
        and f = example_frame and c = story_alone_pressed and u = "()" and ?c1.0 = ?c2
        and e = "KeyError (Some ''MENU'')" and ?c2.0 = ?c2]
    unfolding p by simp
  have s: "screen (final (update example_classes example_frame story_pressed)) = fst (final ?b)"
    "objects (final (update example_classes example_frame story_pressed)) 1 = snd (final ?b)"
    using t2(4) e(4) by (simp_all add: prod_eq_iff)
  show ?thesis
    using m e h b k t1 t2(1,2,3) t3 s by simp
qed

section \<open>\<open>load_all_gfx\<close>\<close>




section \<open>\<open>Story.sun_updates\<close>\<close>

text \<open>
  C9: \<open>sun_updates\<close> does not depend on what \<open>Sun.update\<close> does, since it never calls
  it. All it changes of the story screen is the list of suns, from which at most one sun is
  removed: every sun that stays is the same value as before.
\<close>

theorem sun_updates_never_calls_sun_update:
  "Story_sun_updates Sun_update pg ss = Story_sun_updates Sun_update' pg ss
   \<and> (snd (final (Story_sun_updates Sun_update pg ss)) = snd ss
      \<or> (\<exists>obj. obj \<in> set (suns (attrs (snd ss)))
           \<and> snd (final (Story_sun_updates Sun_update pg ss))
               = (snd ss)\<lparr>attrs := (attrs (snd ss))
                    \<lparr>suns := remove1 obj (suns (attrs (snd ss)))\<rparr>\<rparr>))"
  using sun_loop_result [of Sun_update pg "suns (attrs (snd ss))" "fst ss" "snd ss"]
    sun_loop_ignores_update [of Sun_update pg "suns (attrs (snd ss))" ss Sun_update']
  by (simp add: Story_sun_updates_def)

section \<open>\<open>_State.get_event\<close> under \<open>Control.event_loop\<close>\<close>

text \<open>
  C10: when the current state inherits \<open>get_event\<close> from \<open>_State\<close>, which takes
  \<open>event\<close>, \<open>keys\<close> and \<open>mouse\<close>, the dispatch of any event by \<open>event_loop\<close> raises
  \<open>TypeError\<close> at the first event: no method body runs and no object changes.
\<close>

theorem inherited_get_event_raises_TypeError:
  assumes "get_event_def (cls (State c)) = Def_event_keys_mouse StateBase_get_event"
  shows "\<exists>c'. event_loop cls ((event, pg) # rest) c = Raises TypeError c'
           \<and> calls c' = calls c \<and> objects c' = objects c \<and> State c' = State c"
  using assms by (simp add: call_get_event_def toggle_show_fps_def Let_def)

theorem inherited_get_event_raises_TypeError_witness:
  "get_event_def (example_classes (State prototype_control))
     = Def_event_keys_mouse StateBase_get_event
   \<and> (\<exists>c'. event_loop example_classes [key_down] prototype_control = Raises TypeError c'
         \<and> calls c' = calls prototype_control
         \<and> objects c' = objects prototype_control
         \<and> State c' = State prototype_control)"
proof -
  have h: "get_event_def (example_classes (State prototype_control))
     = Def_event_keys_mouse StateBase_get_event"
    by (simp add: prototype_control_def example_classes_def StateBase_class_def)
  show ?thesis
    using h inherited_get_event_raises_TypeError [where cls = example_classes
        and c = prototype_control and event = "fst key_down" and pg = "snd key_down"
        and rest = "[]", OF h]
    by (simp add: key_down_def)
qed

end
